theory Spec2Isabelle
  imports Complex_Main "HOL-Library.Sublist" "HOL-Library.Product_Lexorder"
begin

section \<open>Library management: the business logic of \<open>library_service.py\<close>\<close>

text \<open>
  The theory embeds the six functions of \<open>library_service.py\<close> (add a book, borrow, return,
  late fee, search, patron status report) as HOL functions over an explicit store.
  Python strings are modelled as \<open>string\<close>, each \<open>char\<close> standing for one code point below
  256 (the Latin-1 range); integers are \<open>int\<close>; the currency values, which the code holds in
  floats, are \<open>rat\<close>: every amount the code computes is a multiple of one half obtained from
  a day count, so the float arithmetic is exact on them.
\<close>

subsection \<open>Python string methods\<close>

text \<open>\<open>str.isspace\<close> on one code point below 256.\<close>

definition isspace :: "char \<Rightarrow> bool" where
  "isspace c = (of_char c \<in> {9, 10, 11, 12, 13, 28, 29, 30, 31, 32, 133, 160 :: nat})"

text \<open>\<open>str.strip()\<close>: leading and trailing whitespace removed.\<close>

definition strip :: "string \<Rightarrow> string" where
  "strip s = rev (dropWhile isspace (rev (dropWhile isspace s)))"

text \<open>
  \<open>str.isdigit()\<close>: true when the string is not empty and every character is a digit; below
  256 those are \<open>0\<close> to \<open>9\<close> and the superscripts one, two and three.
\<close>

definition isdigit_char :: "char \<Rightarrow> bool" where
  "isdigit_char c =
     (let n = (of_char c :: nat) in (48 \<le> n \<and> n \<le> 57) \<or> n = 178 \<or> n = 179 \<or> n = 185)"

definition isdigit :: "string \<Rightarrow> bool" where
  "isdigit s = (s \<noteq> [] \<and> list_all isdigit_char s)"

text \<open>\<open>str.lower()\<close> on code points below 256.\<close>

definition lower_char :: "char \<Rightarrow> char" where
  "lower_char c =
     (let n = (of_char c :: nat)
      in if (65 \<le> n \<and> n \<le> 90) \<or> (192 \<le> n \<and> n \<le> 222 \<and> n \<noteq> 215)
         then char_of (n + 32) else c)"

definition lower :: "string \<Rightarrow> string" where
  "lower s = map lower_char s"

subsection \<open>Timestamps\<close>

text \<open>
  A \<open>datetime\<close> is its date, as the proleptic Gregorian ordinal that \<open>date.toordinal()\<close>
  returns, and its time of day in microseconds. Subtracting two dates gives the difference
  of the ordinals; adding \<open>timedelta(days=n)\<close> moves the date and keeps the time of day.
\<close>

record datetime =
  date :: int
  time_of_day :: nat

definition add_days :: "datetime \<Rightarrow> int \<Rightarrow> datetime" where
  "add_days t n = t\<lparr>date := date t + n\<rparr>"

text \<open>
  \<open>strftime("%Y-%m-%d")\<close>: the ordinal is split into year, month and day the way CPython's
  \<open>_ord2ymd\<close> does it. The C library prints the year, which is between 1 and 9999, without
  padding, and the month and the day with two digits. \<open>max_ordinal\<close> is the ordinal of
  9999-12-31, \<open>date.max.toordinal()\<close>: arithmetic that leaves the range above it raises
  OverflowError.
\<close>

definition max_ordinal :: int where
  "max_ordinal = 3652059"

definition days_before_month :: "int \<Rightarrow> int" where
  "days_before_month m = [0, 0, 31, 59, 90, 120, 151, 181, 212, 243, 273, 304, 334] ! nat m"

definition days_in_month :: "int \<Rightarrow> int" where
  "days_in_month m = [0, 31, 28, 31, 30, 31, 30, 31, 31, 30, 31, 30, 31] ! nat m"

definition ord2ymd :: "int \<Rightarrow> int \<times> int \<times> int" where
  "ord2ymd n0 =
     (let n = n0 - 1;
          n400 = n div 146097; n = n mod 146097;
          year = n400 * 400 + 1;
          n100 = n div 36524; n = n mod 36524;
          n4 = n div 1461; n = n mod 1461;
          n1 = n div 365; n = n mod 365;
          year = year + n100 * 100 + n4 * 4 + n1
      in if n1 = 4 \<or> n100 = 4 then (year - 1, 12, 31)
         else
           let leapyear = (n1 = 3 \<and> (n4 \<noteq> 24 \<or> n100 = 3));
               month = (n + 50) div 32;
               preceding = days_before_month month + (if month > 2 \<and> leapyear then 1 else 0)
           in if preceding > n
              then
                let month = month - 1;
                    preceding =
                      preceding - (days_in_month month + (if month = 2 \<and> leapyear then 1 else 0))
                in (year, month, n - preceding + 1)
              else (year, month, n - preceding + 1))"

definition digit_char :: "int \<Rightarrow> char" where
  "digit_char d = char_of (48 + nat (d mod 10))"

definition two_digits :: "int \<Rightarrow> string" where
  "two_digits n = [digit_char (n div 10), digit_char n]"

definition year_digits :: "int \<Rightarrow> string" where
  "year_digits n =
     (if n < 10 then [digit_char n]
      else if n < 100 then [digit_char (n div 10), digit_char n]
      else if n < 1000 then [digit_char (n div 100), digit_char (n div 10), digit_char n]
      else [digit_char (n div 1000), digit_char (n div 100), digit_char (n div 10),
            digit_char n])"

definition strftime_ymd :: "datetime \<Rightarrow> string" where
  "strftime_ymd t =
     (case ord2ymd (date t) of
        (y, m, d) \<Rightarrow> year_digits y @ ''-'' @ two_digits m @ ''-'' @ two_digits d)"

subsection \<open>The store\<close>

record book =
  id_book :: int
  title :: string
  author :: string
  isbn :: string
  total_copies :: int
  available_copies :: int

record borrow_record =
  patron_id :: string
  book_id :: int
  borrow_date :: datetime
  due_date :: datetime
  return_date :: "datetime option"

record db =
  books :: "book list"
  borrow_records :: "borrow_record list"

definition empty_db :: db where
  "empty_db = \<lparr>books = [], borrow_records = []\<rparr>"

text \<open>
  An empty store. The fields of a book and of a borrow record are those of section 3 of the
  specification; \<open>id_book\<close> is the field \<open>id\<close>.
\<close>

text \<open>
  Modelled from the spec: the data access interface (module \<open>database\<close>, which the service
  imports and which is not among the sources). \<open>getBookById\<close> looks a book up by its id.
\<close>

definition get_book_by_id :: "db \<Rightarrow> int \<Rightarrow> book option" where
  "get_book_by_id s i = find (\<lambda>b. id_book b = i) (books s)"

text \<open>Modelled from the spec: \<open>getBookByIsbn\<close> of the missing module \<open>database\<close>.\<close>

definition get_book_by_isbn :: "db \<Rightarrow> string \<Rightarrow> book option" where
  "get_book_by_isbn s x = find (\<lambda>b. isbn b = x) (books s)"

text \<open>Modelled from the spec: \<open>getAllBooks\<close> of the missing module \<open>database\<close>, in catalog order.\<close>

definition get_all_books :: "db \<Rightarrow> book list" where
  "get_all_books s = books s"

text \<open>
  Modelled from the spec: a borrow record of the missing module \<open>database\<close> is active while
  its return date is unset.
\<close>

definition active_of :: "string \<Rightarrow> borrow_record \<Rightarrow> bool" where
  "active_of p r = (patron_id r = p \<and> return_date r = None)"

text \<open>Modelled from the spec: \<open>getPatronActiveBorrowCount\<close> of the missing module \<open>database\<close>.\<close>

definition get_patron_borrow_count :: "db \<Rightarrow> string \<Rightarrow> int" where
  "get_patron_borrow_count s p = int (length (filter (active_of p) (borrow_records s)))"

text \<open>
  The rows that \<open>get_patron_borrowed_books\<close> returns: the service reads the keys
  \<open>book_id\<close>, \<open>title\<close>, \<open>author\<close>, \<open>borrow_date\<close> and \<open>due_date\<close> of each.
\<close>

record borrowed_row =
  bb_book_id :: int
  bb_title :: string
  bb_author :: string
  bb_borrow_date :: datetime
  bb_due_date :: datetime

text \<open>
  Modelled from the spec: the join of a borrow record with the title and author of its book,
  in the missing module \<open>database\<close>; a record whose book is not in the catalog has no row.
\<close>

definition join_book :: "db \<Rightarrow> borrow_record \<Rightarrow> borrowed_row option" where
  "join_book s r =
     (case get_book_by_id s (book_id r) of
        None \<Rightarrow> None
      | Some b \<Rightarrow>
          Some \<lparr>bb_book_id = book_id r, bb_title = title b, bb_author = author b,
                bb_borrow_date = borrow_date r, bb_due_date = due_date r\<rparr>)"

text \<open>
  Modelled from the spec: \<open>getPatronActiveBorrowRecords\<close> of the missing module \<open>database\<close>
  (only unreturned records, in the order they were inserted).
\<close>

definition get_patron_borrowed_books :: "db \<Rightarrow> string \<Rightarrow> borrowed_row list" where
  "get_patron_borrowed_books s p =
     List.map_filter (join_book s) (filter (active_of p) (borrow_records s))"

text \<open>
  Modelled from the spec: the id that the store assigns to a new book (missing module
  \<open>database\<close>): one more than the largest id in the catalog.
\<close>

definition next_id :: "db \<Rightarrow> int" where
  "next_id s = fold max (map id_book (books s)) 0 + 1"

text \<open>
  Modelled from the spec: the write primitives of the missing module \<open>database\<close>. Each returns
  \<open>ok\<close>; whether the store accepts the write is the first argument, and a write that the
  store refuses leaves it unchanged. \<open>insertBook\<close> appends one book.
\<close>

definition insert_book ::
  "bool \<Rightarrow> db \<Rightarrow> string \<Rightarrow> string \<Rightarrow> string \<Rightarrow> int \<Rightarrow> int \<Rightarrow> db \<times> bool" where
  "insert_book ok s t a i n_total n_available =
     (if ok
      then (s\<lparr>books := books s @
                [\<lparr>id_book = next_id s, title = t, author = a, isbn = i,
                  total_copies = n_total, available_copies = n_available\<rparr>]\<rparr>, True)
      else (s, False))"

text \<open>Modelled from the spec: \<open>insertBorrowRecord\<close> of the missing module \<open>database\<close>.\<close>

definition insert_borrow_record ::
  "bool \<Rightarrow> db \<Rightarrow> string \<Rightarrow> int \<Rightarrow> datetime \<Rightarrow> datetime \<Rightarrow> db \<times> bool" where
  "insert_borrow_record ok s p bid bdate ddate =
     (if ok
      then (s\<lparr>borrow_records := borrow_records s @
                [\<lparr>patron_id = p, book_id = bid, borrow_date = bdate, due_date = ddate,
                  return_date = None\<rparr>]\<rparr>, True)
      else (s, False))"

text \<open>
  Modelled from the spec: \<open>updateBookAvailability(id, delta)\<close> of the missing module
  \<open>database\<close> adds \<open>delta\<close> to the available copies of the book with that id.
\<close>

definition update_book_availability :: "bool \<Rightarrow> db \<Rightarrow> int \<Rightarrow> int \<Rightarrow> db \<times> bool" where
  "update_book_availability ok s bid delta =
     (if ok
      then (s\<lparr>books :=
                map (\<lambda>b. if id_book b = bid
                          then b\<lparr>available_copies := available_copies b + delta\<rparr> else b)
                    (books s)\<rparr>, True)
      else (s, False))"

text \<open>
  Modelled from the spec: \<open>updateBorrowRecordReturnDate(patronId, bookId, returnDate)\<close> of
  the missing module \<open>database\<close> sets the return date of the patron's unreturned records of
  that book.
\<close>

definition update_borrow_record_return_date ::
  "bool \<Rightarrow> db \<Rightarrow> string \<Rightarrow> int \<Rightarrow> datetime \<Rightarrow> db \<times> bool" where
  "update_borrow_record_return_date ok s p bid t =
     (if ok
      then (s\<lparr>borrow_records :=
                map (\<lambda>r. if active_of p r \<and> book_id r = bid
                          then r\<lparr>return_date := Some t\<rparr> else r)
                    (borrow_records s)\<rparr>, True)
      else (s, False))"

text \<open>
  The rows of the history query of \<open>get_patron_status_report\<close>, and their entries in the
  report: the return date, or the text \<open>Not yet returned\<close>.
\<close>

record history_entry =
  h_book_id :: int
  h_title :: string
  h_author :: string
  h_borrow_date :: datetime
  h_due_date :: datetime
  h_return_date :: "string + datetime"

text \<open>
  Modelled from the spec: \<open>getPatronFullHistory\<close>, the query that the report sends through
  \<open>get_db_connection\<close> of the missing module \<open>database\<close>: every record of the patron whose
  book is in the catalog, latest borrow date first.
\<close>

definition patron_history_rows :: "db \<Rightarrow> string \<Rightarrow> (borrow_record \<times> book) list" where
  "patron_history_rows s p =
     rev (sort_key (\<lambda>(r, b). (date (borrow_date r), time_of_day (borrow_date r)))
       (List.map_filter
          (\<lambda>r. case get_book_by_id s (book_id r) of None \<Rightarrow> None | Some b \<Rightarrow> Some (r, b))
          (filter (\<lambda>r. patron_id r = p) (borrow_records s))))"

subsection \<open>The service functions\<close>

text \<open>
  Each function takes the store and returns it updated; the functions that read the clock
  take \<open>now\<close>, the value of \<open>datetime.now()\<close>; the functions that write take, for each write
  they may perform, whether the store accepts it. The double quote of the messages is
  \<open>CHR 0x22\<close>. An exception that a function raises is a value of \<open>error\<close>, and a function
  that can raise returns \<open>Inl\<close> of it.
\<close>

datatype error = TypeError | OverflowError

definition invalid_patron_id :: "string \<Rightarrow> bool" where
  "invalid_patron_id p = (p = [] \<or> \<not> isdigit p \<or> length p \<noteq> 6)"

definition add_book_to_catalog ::
  "db \<Rightarrow> bool \<Rightarrow> string \<Rightarrow> string \<Rightarrow> string \<Rightarrow> int \<Rightarrow> db \<times> bool \<times> string" where
  "add_book_to_catalog s ins_ok ttl auth isbn_v n_copies =
     (if ttl = [] \<or> strip ttl = [] then (s, False, ''Title is required.'')
      else if length (strip ttl) > 200
      then (s, False, ''Title must be less than 200 characters.'')
      else if auth = [] \<or> strip auth = [] then (s, False, ''Author is required.'')
      else if length (strip auth) > 100
      then (s, False, ''Author must be less than 100 characters.'')
      else if length isbn_v \<noteq> 13 then (s, False, ''ISBN must be exactly 13 digits.'')
      else if n_copies \<le> 0 then (s, False, ''Total copies must be a positive integer.'')
      else
        (case get_book_by_isbn s isbn_v of
           Some existing \<Rightarrow> (s, False, ''A book with this ISBN already exists.'')
         | None \<Rightarrow>
             (case insert_book ins_ok s (strip ttl) (strip auth) isbn_v n_copies n_copies of
                (s1, success) \<Rightarrow>
                  if success
                  then (s1, True, ''Book '' @ [CHR 0x22] @ strip ttl @ [CHR 0x22] @
                          '' has been successfully added to the catalog.'')
                  else (s1, False, ''Database error occurred while adding the book.''))))"

definition borrow_book_by_patron ::
  "db \<Rightarrow> datetime \<Rightarrow> bool \<Rightarrow> bool \<Rightarrow> string \<Rightarrow> int \<Rightarrow> error + db \<times> bool \<times> string" where
  "borrow_book_by_patron s now ins_ok upd_ok p bid =
     (if invalid_patron_id p
      then Inr (s, False, ''Invalid patron ID. Must be exactly 6 digits.'')
      else
        (case get_book_by_id s bid of
           None \<Rightarrow> Inr (s, False, ''Book not found.'')
         | Some bk \<Rightarrow>
             if available_copies bk \<le> 0
             then Inr (s, False, ''This book is currently not available.'')
             else
               let current_borrowed = get_patron_borrow_count s p
               in if current_borrowed > 5
                  then Inr (s, False,
                         ''You have reached the maximum borrowing limit of 5 books.'')
                  else
                    let bdate = now
                    in if date bdate + 14 > max_ordinal then Inl OverflowError
                       else
                         let ddate = add_days bdate 14
                         in (case insert_borrow_record ins_ok s p bid bdate ddate of
                               (s1, borrow_success) \<Rightarrow>
                                 if \<not> borrow_success
                                 then Inr (s1, False,
                                   ''Database error occurred while creating borrow record.'')
                                 else
                                   (case update_book_availability upd_ok s1 bid (- 1) of
                                      (s2, availability_success) \<Rightarrow>
                                        if \<not> availability_success
                                        then Inr (s2, False,
                                          ''Database error occurred while updating book availability.'')
                                        else Inr (s2, True,
                                          ''Successfully borrowed '' @ [CHR 0x22] @ title bk @
                                          [CHR 0x22] @ ''. Due date: '' @ strftime_ymd ddate @
                                          ''.'')))))"

text \<open>
  The scan of \<open>return_book_by_patron\<close> and \<open>calculate_late_fee_for_book\<close>: the body of the
  loop leaves the loop in its first round, with the row when its book is the requested one
  and out of the function otherwise; over an empty list the body does not run and
  \<open>borrowed\<close> stays \<open>None\<close>.
\<close>

datatype scan = Not_entered | Found borrowed_row | Mismatch

fun scan_borrowed :: "int \<Rightarrow> borrowed_row list \<Rightarrow> scan" where
  "scan_borrowed bid [] = Not_entered"
| "scan_borrowed bid (i # rest) = (if bb_book_id i = bid then Found i else Mismatch)"

text \<open>
  The two writes of a return. The check \<open>type(book_id) is not int\<close> of the source never
  fires on a \<open>book_id\<close> of type \<open>int\<close>.
\<close>

definition return_writes ::
  "db \<Rightarrow> datetime \<Rightarrow> bool \<Rightarrow> bool \<Rightarrow> string \<Rightarrow> int \<Rightarrow> db \<times> bool \<times> string" where
  "return_writes s now rec_ok upd_ok p bid =
     (case update_borrow_record_return_date rec_ok s p bid now of
        (s1, ok1) \<Rightarrow>
          if \<not> ok1 then (s1, False, ''Error while updating return record.'')
          else
            (case update_book_availability upd_ok s1 bid 1 of
               (s2, ok2) \<Rightarrow>
                 if \<not> ok2 then (s2, False, ''Error while updating book availability.'')
                 else (s2, True, ''Successfully returned book.'')))"

definition return_book_by_patron ::
  "db \<Rightarrow> datetime \<Rightarrow> bool \<Rightarrow> bool \<Rightarrow> string \<Rightarrow> int \<Rightarrow> db \<times> bool \<times> string" where
  "return_book_by_patron s now rec_ok upd_ok p bid =
     (if invalid_patron_id p then (s, False, ''Invalid patron ID. Must be exactly 6 digits.'')
      else
        (case get_book_by_id s bid of
           None \<Rightarrow> (s, False, ''Book not found.'')
         | Some bk \<Rightarrow>
             (case scan_borrowed bid (get_patron_borrowed_books s p) of
                Mismatch \<Rightarrow> (s, False, ''This book is not currently being borrowed by you.'')
              | Found i \<Rightarrow> return_writes s now rec_ok upd_ok p bid
              | Not_entered \<Rightarrow> return_writes s now rec_ok upd_ok p bid)))"

text \<open>
  Python's \<open>round(x, 2)\<close>: to the nearest hundredth, a tie to the even one.
\<close>

definition round_half_even :: "rat \<Rightarrow> int" where
  "round_half_even y =
     (let f = \<lfloor>y\<rfloor>; d = y - of_int f
      in if d < 1 / 2 then f else if d > 1 / 2 then f + 1 else if even f then f else f + 1)"

definition round2 :: "rat \<Rightarrow> rat" where
  "round2 x = of_int (round_half_even (x * 100)) / 100"

record fee_quote =
  fee_amount :: rat
  days_overdue :: int
  status :: string

text \<open>
  With \<open>borrowed\<close> still \<open>None\<close> after the loop, \<open>borrowed["due_date"]\<close> raises TypeError. The
  test \<open>due_date is str\<close> compares the value with the type \<open>str\<close> and is never true.
\<close>

definition calculate_late_fee_for_book ::
  "db \<Rightarrow> datetime \<Rightarrow> string \<Rightarrow> int \<Rightarrow> error + fee_quote" where
  "calculate_late_fee_for_book s now p bid =
     (case scan_borrowed bid (get_patron_borrowed_books s p) of
        Mismatch \<Rightarrow>
          Inr \<lparr>fee_amount = 0, days_overdue = 0, status = ''Not being borrowed''\<rparr>
      | Not_entered \<Rightarrow> Inl TypeError
      | Found borrowed \<Rightarrow>
          let ddate = bb_due_date borrowed;
              n_days = max (date now - date ddate) 0
          in if n_days \<le> 0
             then Inr \<lparr>fee_amount = round2 0, days_overdue = n_days, status = ''On time''\<rparr>
             else
               let first_week = min n_days 7;
                   remaining = max (n_days - 7) 0;
                   fee = of_int first_week * (1 / 2) + of_int remaining * 1;
                   fee = (if fee > 15 then 15 else fee)
               in Inr \<lparr>fee_amount = round2 fee, days_overdue = n_days,
                        status = ''Overdue''\<rparr>)"

text \<open>The field of a book that \<open>i.get(search_type, "")\<close> reads.\<close>

definition get_field :: "book \<Rightarrow> string \<Rightarrow> string" where
  "get_field i k =
     (if k = ''title'' then title i else if k = ''author'' then author i
      else if k = ''isbn'' then isbn i else [])"

fun search_loop :: "string \<Rightarrow> string \<Rightarrow> book list \<Rightarrow> book list \<Rightarrow> book list" where
  "search_loop stype trm [] results = results"
| "search_loop stype trm (i # rest) results =
     (let v = lower (get_field i stype)
      in if stype = ''title'' \<or> stype = ''author''
         then (if sublist trm v then search_loop stype trm rest (results @ [i])
               else search_loop stype trm rest results)
         else if stype = ''isbn''
         then (if lower (isbn i) = trm then search_loop stype trm rest (results @ [i])
               else search_loop stype trm rest results)
         else search_loop stype trm rest results)"

definition search_books_in_catalog :: "db \<Rightarrow> string \<Rightarrow> string \<Rightarrow> book list" where
  "search_books_in_catalog s search_term search_type =
     (if search_term = [] then []
      else
        let stype = lower (if search_type = [] then ''title'' else search_type);
            stype = (if stype = ''title'' \<or> stype = ''author'' \<or> stype = ''isbn''
                     then stype else ''title'');
            trm = lower (strip search_term)
        in search_loop stype trm (get_all_books s) [])"

record detail =
  d_book_id :: int
  d_title :: string
  d_author :: string
  d_borrow_date :: datetime
  d_due_date :: datetime
  d_days_overdue :: int
  d_late_fee :: rat
  d_status :: string

record report =
  rp_patron_id :: string
  borrow_count :: int
  borrowed_books :: "detail list"
  borrowing_history :: "history_entry list"
  total_late_fee :: rat

fun report_loop ::
  "db \<Rightarrow> datetime \<Rightarrow> string \<Rightarrow> borrowed_row list \<Rightarrow> detail list \<Rightarrow> rat \<Rightarrow>
   error + detail list \<times> rat" where
  "report_loop s now p [] borrowed_details total_fees = Inr (borrowed_details, total_fees)"
| "report_loop s now p (bk # rest) borrowed_details total_fees =
     (case calculate_late_fee_for_book s now p (bb_book_id bk) of
        Inl e \<Rightarrow> Inl e
      | Inr fee_info \<Rightarrow>
          report_loop s now p rest
            (borrowed_details @
               [\<lparr>d_book_id = bb_book_id bk, d_title = bb_title bk, d_author = bb_author bk,
                 d_borrow_date = bb_borrow_date bk, d_due_date = bb_due_date bk,
                 d_days_overdue = days_overdue fee_info, d_late_fee = fee_amount fee_info,
                 d_status = status fee_info\<rparr>])
            (total_fees + fee_amount fee_info))"

definition history_of :: "borrow_record \<times> book \<Rightarrow> history_entry" where
  "history_of row =
     (case row of
        (r, b) \<Rightarrow>
          \<lparr>h_book_id = book_id r, h_title = title b, h_author = author b,
            h_borrow_date = borrow_date r, h_due_date = due_date r,
            h_return_date =
              (case return_date r of None \<Rightarrow> Inl ''Not yet returned'' | Some t \<Rightarrow> Inr t)\<rparr>)"

definition get_patron_status_report :: "db \<Rightarrow> datetime \<Rightarrow> string \<Rightarrow> error + report" where
  "get_patron_status_report s now p =
     (if invalid_patron_id p
      then Inr \<lparr>rp_patron_id = p, borrow_count = 0, borrowed_books = [],
                borrowing_history = [], total_late_fee = 0\<rparr>
      else
        let borrowed = get_patron_borrowed_books s p
        in (case report_loop s now p borrowed [] 0 of
              Inl e \<Rightarrow> Inl e
            | Inr (borrowed_details, total_fees) \<Rightarrow>
                Inr \<lparr>rp_patron_id = p, borrow_count = int (length borrowed),
                      borrowed_books = borrowed_details,
                      borrowing_history = map history_of (patron_history_rows s p),
                      total_late_fee = round2 total_fees\<rparr>))"

subsection \<open>Sequences of operations\<close>

text \<open>
  The operations that change the store, each with the outcomes of its writes, and the store
  after a sequence of them. A borrow that raises has written nothing.
\<close>

datatype operation =
  Add_book bool string string string int
| Borrow datetime bool bool string int
| Return datetime bool bool string int

fun apply_operation :: "db \<Rightarrow> operation \<Rightarrow> db" where
  "apply_operation s (Add_book ins_ok ttl auth isbn_v n) =
     fst (add_book_to_catalog s ins_ok ttl auth isbn_v n)"
| "apply_operation s (Borrow now ins_ok upd_ok p bid) =
     (case borrow_book_by_patron s now ins_ok upd_ok p bid of
        Inl e \<Rightarrow> s
      | Inr res \<Rightarrow> fst res)"
| "apply_operation s (Return now rec_ok upd_ok p bid) =
     fst (return_book_by_patron s now rec_ok upd_ok p bid)"

fun run :: "db \<Rightarrow> operation list \<Rightarrow> db" where
  "run s [] = s"
| "run s (x # xs) = run (apply_operation s x) xs"

subsection \<open>Invariants of the store\<close>


text \<open>The number of unreturned borrow records of a book, whoever the patron is.\<close>

definition active_loans :: "db \<Rightarrow> int \<Rightarrow> int" where
  "active_loans s i =
     int (length (filter (\<lambda>r. book_id r = i \<and> return_date r = None) (borrow_records s)))"




subsection \<open>Example stores\<close>

text \<open>
  A catalog of two books, six copies of the first and one of the second, and the stores
  reached from it by borrowing.
\<close>

definition day0 :: datetime where
  "day0 = \<lparr>date = 739000, time_of_day = 0\<rparr>"

definition two_books :: db where
  "two_books =
     run empty_db
       [Add_book True ''Dune'' ''Frank Herbert'' ''9780441013593'' 6,
        Add_book True ''Emma'' ''Jane Austen'' ''9780141439587'' 1]"

definition two_loans :: db where
  "two_loans =
     run two_books
       [Borrow day0 True True ''123456'' 1,
        Borrow (add_days day0 2) True True ''123456'' 2]"

definition five_loans :: db where
  "five_loans = run two_books (replicate 5 (Borrow day0 True True ''777777'' 1))"

text \<open>A catalog whose two isbn values differ in letter case only.\<close>

definition case_variants :: db where
  "case_variants =
     run empty_db
       [Add_book True ''Alpha'' ''Ann Author'' ''abcdefghijklm'' 1,
        Add_book True ''Beta'' ''Bob Author'' ''ABCDEFGHIJKLM'' 1]"

section \<open>Evaluation of the example stores\<close>

lemma two_books_eq:
  "two_books =
     \<lparr>books =
        [\<lparr>id_book = 1, title = ''Dune'', author = ''Frank Herbert'', isbn = ''9780441013593'',
          total_copies = 6, available_copies = 6\<rparr>,
         \<lparr>id_book = 2, title = ''Emma'', author = ''Jane Austen'', isbn = ''9780141439587'',
          total_copies = 1, available_copies = 1\<rparr>],
      borrow_records = []\<rparr>"
  by code_simp

lemma two_loans_eq:
  "two_loans =
     \<lparr>books =
        [\<lparr>id_book = 1, title = ''Dune'', author = ''Frank Herbert'', isbn = ''9780441013593'',
          total_copies = 6, available_copies = 5\<rparr>,
         \<lparr>id_book = 2, title = ''Emma'', author = ''Jane Austen'', isbn = ''9780141439587'',
          total_copies = 1, available_copies = 0\<rparr>],
      borrow_records =
        [\<lparr>patron_id = ''123456'', book_id = 1,
          borrow_date = \<lparr>date = 739000, time_of_day = 0\<rparr>,
          due_date = \<lparr>date = 739014, time_of_day = 0\<rparr>, return_date = None\<rparr>,
         \<lparr>patron_id = ''123456'', book_id = 2,
          borrow_date = \<lparr>date = 739002, time_of_day = 0\<rparr>,
          due_date = \<lparr>date = 739016, time_of_day = 0\<rparr>, return_date = None\<rparr>]\<rparr>"
  by code_simp

lemma two_loans_rows:
  "get_patron_borrowed_books two_loans ''123456'' =
     [\<lparr>bb_book_id = 1, bb_title = ''Dune'', bb_author = ''Frank Herbert'',
       bb_borrow_date = \<lparr>date = 739000, time_of_day = 0\<rparr>,
       bb_due_date = \<lparr>date = 739014, time_of_day = 0\<rparr>\<rparr>,
      \<lparr>bb_book_id = 2, bb_title = ''Emma'', bb_author = ''Jane Austen'',
       bb_borrow_date = \<lparr>date = 739002, time_of_day = 0\<rparr>,
       bb_due_date = \<lparr>date = 739016, time_of_day = 0\<rparr>\<rparr>]"
  by code_simp

lemma valid_123456: "\<not> invalid_patron_id ''123456''"
  by code_simp

lemma two_books_rows: "get_patron_borrowed_books two_books ''123456'' = []"
  by code_simp

lemma two_books_first:
  "get_book_by_id two_books 1 =
     Some \<lparr>id_book = 1, title = ''Dune'', author = ''Frank Herbert'', isbn = ''9780441013593'',
           total_copies = 6, available_copies = 6\<rparr>"
  by code_simp

lemma two_loans_first:
  "get_book_by_id two_loans 1 =
     Some \<lparr>id_book = 1, title = ''Dune'', author = ''Frank Herbert'', isbn = ''9780441013593'',
           total_copies = 6, available_copies = 5\<rparr>"
  by code_simp

lemma two_loans_second:
  "get_book_by_id two_loans 2 =
     Some \<lparr>id_book = 2, title = ''Emma'', author = ''Jane Austen'', isbn = ''9780141439587'',
           total_copies = 1, available_copies = 0\<rparr>"
  by code_simp

section \<open>Rounding\<close>

lemma round_half_even_of_int: "round_half_even (of_int k) = k"
  by (simp add: round_half_even_def)

lemma round2_half: "round2 (of_int k / 2) = of_int k / 2"
proof -
  have "(of_int k / 2 :: rat) * 100 = of_int (50 * k)" by simp
  then have "round_half_even ((of_int k / 2) * 100) = 50 * k"
    using round_half_even_of_int [of "50 * k"] by simp
  then show ?thesis by (simp add: round2_def)
qed

lemma round2_int: "round2 (of_int k) = of_int k"
  using round2_half [of "2 * k"] by simp

section \<open>The late fee\<close>

text \<open>
  The quote for a patron whose first active row is the requested book, as a function of the
  number \<open>n\<close> of days overdue. The cap is reached from the nineteenth day on.
\<close>

lemma quote_found_eq:
  assumes "get_patron_borrowed_books s p = r # rest" and "bb_book_id r = bid"
    and n: "n = max (date now - date (bb_due_date r)) 0"
  shows "calculate_late_fee_for_book s now p bid =
     Inr \<lparr>fee_amount =
            (if n \<le> 7 then of_int n / 2 else if n \<le> 18 then of_int (2 * n - 7) / 2 else 15),
          days_overdue = n,
          status = (if n = 0 then ''On time'' else ''Overdue'')\<rparr>"
proof -
  have n0: "0 \<le> n" by (simp add: n)
  have found: "scan_borrowed bid (get_patron_borrowed_books s p) = Found r"
    using assms by simp
  have unf: "calculate_late_fee_for_book s now p bid =
     (if n \<le> 0
      then Inr \<lparr>fee_amount = round2 0, days_overdue = n, status = ''On time''\<rparr>
      else Inr \<lparr>fee_amount =
                  round2 (if 15 < rat_of_int (min n 7) * (1 / 2) + rat_of_int (max (n - 7) 0) * 1
                          then 15
                          else rat_of_int (min n 7) * (1 / 2) + rat_of_int (max (n - 7) 0) * 1),
                days_overdue = n, status = ''Overdue''\<rparr>)"
    by (simp only: calculate_late_fee_for_book_def found scan.case Let_def n [symmetric])
  consider "n = 0" | "0 < n" "n \<le> 7" | "7 < n" "n \<le> 18" | "18 < n" using n0 by linarith
  then show ?thesis
  proof cases
    case 1
    then show ?thesis using round2_int [of 0]
      by (simp add: unf)
  next
    case 2
    then have m: "min n 7 = n" "max (n - 7) 0 = 0" by simp_all
    from 2 show ?thesis using round2_half [of n]
      by (simp add: unf m)
  next
    case 3
    then have m: "min n 7 = 7" "max (n - 7) 0 = n - 7" by simp_all
    have e: "(7 / 2 + (of_int n - 7) :: rat) = of_int (2 * n - 7) / 2" by simp
    have le: "\<not> (15 :: rat) < of_int (2 * n - 7) / 2"
    proof -
      have "2 * n - 7 \<le> 30" using 3 by simp
      then have "(of_int (2 * n - 7) :: rat) \<le> of_int 30" by (simp only: of_int_le_iff)
      then show ?thesis by simp
    qed
    from 3 show ?thesis using round2_half [of "2 * n - 7"] le
      by (simp add: unf m e)
  next
    case 4
    then have m: "min n 7 = 7" "max (n - 7) 0 = n - 7" by simp_all
    have e: "(7 / 2 + (of_int n - 7) :: rat) = of_int (2 * n - 7) / 2" by simp
    have gt: "(15 :: rat) < of_int (2 * n - 7) / 2"
    proof -
      have "30 < 2 * n - 7" using 4 by simp
      then have "(of_int 30 :: rat) < of_int (2 * n - 7)" by (simp only: of_int_less_iff)
      then show ?thesis by simp
    qed
    from 4 show ?thesis using round2_int [of 15] gt
      by (simp add: unf m e)
  qed
qed

text \<open>
  Claim C3. When the scan of \<open>calculate_late_fee_for_book\<close> finds the record (the patron's
  first active row is the requested book), the quote has \<open>days_overdue\<close> equal to the days
  from the due date to today, never below zero; its fee is one half per day up to seven
  days and 3.5 plus one per further day after that, at most 15, and is a value that
  rounding to two decimals leaves alone; 5 days give 2.50, 10 days 6.50, 40 days 15.00, and
  0 days give 0.00 with status \<open>On time\<close>.
\<close>

theorem late_fee_of_found_record:
  assumes "get_patron_borrowed_books s p = r # rest" and "bb_book_id r = bid"
  shows "\<exists>q. calculate_late_fee_for_book s now p bid = Inr q
     \<and> days_overdue q = max (date now - date (bb_due_date r)) 0
     \<and> (days_overdue q \<le> 7 \<longrightarrow> fee_amount q = 1 / 2 * of_int (days_overdue q))
     \<and> (days_overdue q > 7 \<longrightarrow>
          fee_amount q = min 15 (7 / 2 + 1 * of_int (days_overdue q - 7)))
     \<and> fee_amount q \<le> 15
     \<and> round2 (fee_amount q) = fee_amount q
     \<and> (days_overdue q = 5 \<longrightarrow> fee_amount q = 5 / 2)
     \<and> (days_overdue q = 10 \<longrightarrow> fee_amount q = 13 / 2)
     \<and> (days_overdue q = 40 \<longrightarrow> fee_amount q = 15)
     \<and> (days_overdue q = 0 \<longrightarrow> fee_amount q = 0 \<and> status q = ''On time'')
     \<and> (days_overdue q > 0 \<longrightarrow> status q = ''Overdue'')"
proof -
  define n where "n = max (date now - date (bb_due_date r)) 0"
  define q where
    "q = \<lparr>fee_amount =
            (if n \<le> 7 then of_int n / 2
             else if n \<le> 18 then of_int (2 * n - 7) / 2 else (15::rat)),
          days_overdue = n,
          status = (if n = 0 then ''On time'' else ''Overdue'')\<rparr>"
  have eq: "calculate_late_fee_for_book s now p bid = Inr q"
    unfolding q_def by (rule quote_found_eq [OF assms n_def])
  have d: "days_overdue q = n" by (simp add: q_def)
  have f1: "n \<le> 7 \<Longrightarrow> fee_amount q = 1 / 2 * of_int n" by (simp add: q_def)
  have f2: "7 < n \<Longrightarrow> fee_amount q = min 15 (7 / 2 + 1 * of_int (n - 7))"
  proof (cases "n \<le> 18")
    case True
    assume "7 < n"
    have "2 * n - 7 \<le> 30" using True by simp
    then have "(of_int (2 * n - 7) :: rat) \<le> of_int 30" by (simp only: of_int_le_iff)
    then have "(7 / 2 + 1 * of_int (n - 7) :: rat) \<le> 15" by simp
    then show ?thesis using True \<open>7 < n\<close> by (simp add: q_def min_def)
  next
    case False
    assume "7 < n"
    have "30 < 2 * n - 7" using False by simp
    then have "(of_int 30 :: rat) < of_int (2 * n - 7)" by (simp only: of_int_less_iff)
    then have "(15 :: rat) < 7 / 2 + 1 * of_int (n - 7)" by simp
    then show ?thesis using False \<open>7 < n\<close> by (simp add: q_def min_def)
  qed
  have f3: "fee_amount q \<le> 15"
  proof (cases "n \<le> 7")
    case True
    then have "(of_int n :: rat) \<le> of_int 7" by (simp only: of_int_le_iff)
    then show ?thesis using True by (simp add: q_def)
  next
    case False
    then show ?thesis using f2 by simp
  qed
  have f4: "round2 (fee_amount q) = fee_amount q"
    using round2_half [of n] round2_half [of "2 * n - 7"] round2_int [of 15]
    by (simp add: q_def)
  have f5: "n = 5 \<Longrightarrow> fee_amount q = 5 / 2" "n = 10 \<Longrightarrow> fee_amount q = 13 / 2"
    "n = 40 \<Longrightarrow> fee_amount q = 15" "n = 0 \<Longrightarrow> fee_amount q = 0 \<and> status q = ''On time''"
    "0 < n \<Longrightarrow> status q = ''Overdue''"
    by (simp_all add: q_def)
  show ?thesis
    using eq d f1 f2 f3 f4 f5 unfolding n_def [symmetric] by (intro exI [of _ q]) simp
qed

theorem late_fee_of_found_record_witness:
  "get_patron_borrowed_books two_loans ''123456'' =
     \<lparr>bb_book_id = 1, bb_title = ''Dune'', bb_author = ''Frank Herbert'',
       bb_borrow_date = \<lparr>date = 739000, time_of_day = 0\<rparr>,
       bb_due_date = \<lparr>date = 739014, time_of_day = 0\<rparr>\<rparr> #
     [\<lparr>bb_book_id = 2, bb_title = ''Emma'', bb_author = ''Jane Austen'',
       bb_borrow_date = \<lparr>date = 739002, time_of_day = 0\<rparr>,
       bb_due_date = \<lparr>date = 739016, time_of_day = 0\<rparr>\<rparr>]
   \<and> (\<exists>q. calculate_late_fee_for_book two_loans (add_days day0 24) ''123456'' 1 = Inr q
          \<and> days_overdue q = 10 \<and> fee_amount q = 13 / 2 \<and> status q = ''Overdue'')"
  using late_fee_of_found_record [OF two_loans_rows, of 1 "add_days day0 24"] two_loans_rows
  by (auto simp: add_days_def day0_def)

text \<open>
  Claim C1. The claim says that \<open>calculate_late_fee_for_book\<close> returns a quote for a patron
  without active borrow records. The code does not: over an empty list the loop body never
  runs, \<open>borrowed\<close> is still \<open>None\<close> and reading its due date raises TypeError.
\<close>

theorem late_fee_raises_without_active_record:
  assumes "get_patron_borrowed_books s p = []"
  shows "calculate_late_fee_for_book s now p bid = Inl TypeError"
  using assms by (simp add: calculate_late_fee_for_book_def)

theorem late_fee_raises_without_active_record_witness:
  "get_patron_borrowed_books two_books ''abc'' = []
   \<and> calculate_late_fee_for_book two_books day0 ''abc'' 2 = Inl TypeError"
proof -
  have h: "get_patron_borrowed_books two_books ''abc'' = []" by code_simp
  show ?thesis using h late_fee_raises_without_active_record [OF h, of day0 2] by simp
qed

section \<open>Returning a book\<close>

lemma find_map_avail:
  "find (\<lambda>b. id_book b = i)
     (map (\<lambda>b. if id_book b = bid then b\<lparr>available_copies := available_copies b + d\<rparr> else b)
        bs) =
   map_option (\<lambda>b. if id_book b = bid then b\<lparr>available_copies := available_copies b + d\<rparr> else b)
     (find (\<lambda>b. id_book b = i) bs)"
  by (induction bs) auto

lemma no_row_no_record:
  assumes "get_patron_borrowed_books s p = []" and "get_book_by_id s bid = Some bk"
    and "r \<in> set (borrow_records s)"
  shows "\<not> (active_of p r \<and> book_id r = bid)"
proof
  assume a: "active_of p r \<and> book_id r = bid"
  then have "r \<in> set (filter (active_of p) (borrow_records s))" using assms(3) by simp
  moreover have "join_book s r \<noteq> None" using a assms(2) by (simp add: join_book_def)
  ultimately have "List.map_filter (join_book s) (filter (active_of p) (borrow_records s)) \<noteq> []"
    by (auto simp: List.map_filter_def filter_empty_conv)
  then show False using assms(1) by (simp add: get_patron_borrowed_books_def)
qed

lemma return_date_noop:
  assumes "get_patron_borrowed_books s p = []" and "get_book_by_id s bid = Some bk"
  shows "update_borrow_record_return_date True s p bid t = (s, True)"
proof -
  have "map (\<lambda>r. if active_of p r \<and> book_id r = bid then r\<lparr>return_date := Some t\<rparr> else r)
          (borrow_records s) = borrow_records s"
    using no_row_no_record [OF assms] by (intro map_idI) auto
  then show ?thesis by (simp add: update_borrow_record_return_date_def)
qed

text \<open>
  Claim C10. For a valid patron id with no active borrow record and a book of the catalog,
  \<open>return_book_by_patron\<close> never answers "not currently being borrowed": the loop body does
  not run and the two writes decide the outcome. A refused first write gives the return
  record error, a refused second write the availability error, and when the store accepts
  both the return succeeds and the book gains one available copy.
\<close>

theorem return_with_no_active_record:
  assumes "\<not> invalid_patron_id p" and "get_book_by_id s bid = Some bk"
    and "get_patron_borrowed_books s p = []"
  shows "return_book_by_patron s now rec_ok upd_ok p bid =
     (if \<not> rec_ok then (s, False, ''Error while updating return record.'')
      else if \<not> upd_ok then (s, False, ''Error while updating book availability.'')
      else (s\<lparr>books := map (\<lambda>b. if id_book b = bid
                                  then b\<lparr>available_copies := available_copies b + 1\<rparr> else b)
                            (books s)\<rparr>,
            True, ''Successfully returned book.''))"
proof (cases rec_ok)
  case False
  then show ?thesis using assms
    by (simp add: return_book_by_patron_def return_writes_def update_borrow_record_return_date_def)
next
  case True
  then show ?thesis using assms return_date_noop [OF assms(3) assms(2), of now]
    by (simp add: return_book_by_patron_def return_writes_def update_book_availability_def)
qed

theorem return_with_no_active_record_witness:
  "\<not> invalid_patron_id ''123456''
   \<and> get_book_by_id two_books 1 =
       Some \<lparr>id_book = 1, title = ''Dune'', author = ''Frank Herbert'',
             isbn = ''9780441013593'', total_copies = 6, available_copies = 6\<rparr>
   \<and> get_patron_borrowed_books two_books ''123456'' = []
   \<and> return_book_by_patron two_books day0 True True ''123456'' 1 =
       (\<lparr>books =
           [\<lparr>id_book = 1, title = ''Dune'', author = ''Frank Herbert'',
             isbn = ''9780441013593'', total_copies = 6, available_copies = 7\<rparr>,
            \<lparr>id_book = 2, title = ''Emma'', author = ''Jane Austen'',
             isbn = ''9780141439587'', total_copies = 1, available_copies = 1\<rparr>],
         borrow_records = []\<rparr>,
        True, ''Successfully returned book.'')
   \<and> return_book_by_patron two_books day0 False True ''123456'' 1 =
       (two_books, False, ''Error while updating return record.'')
   \<and> return_book_by_patron two_books day0 True False ''123456'' 1 =
       (two_books, False, ''Error while updating book availability.'')"
  using return_with_no_active_record [OF valid_123456 two_books_first two_books_rows, of day0 True True]
    return_with_no_active_record [OF valid_123456 two_books_first two_books_rows, of day0 False True]
    return_with_no_active_record [OF valid_123456 two_books_first two_books_rows, of day0 True False]
    valid_123456 two_books_first two_books_rows
  by (simp add: two_books_eq)

text \<open>
  Claim C5, as stated, fails: it speaks of every patron with a non-empty list of active
  rows and of every requested book id, but the lookup of the book comes before the scan.
  The patron of \<open>two_loans\<close> has two active rows, the first of book 1; a return of book
  9999, which is not in the catalog, is answered "Book not found.", not "not currently
  being borrowed".
\<close>

theorem return_of_missing_book:
  "get_patron_borrowed_books two_loans ''123456'' =
     [\<lparr>bb_book_id = 1, bb_title = ''Dune'', bb_author = ''Frank Herbert'',
       bb_borrow_date = \<lparr>date = 739000, time_of_day = 0\<rparr>,
       bb_due_date = \<lparr>date = 739014, time_of_day = 0\<rparr>\<rparr>,
      \<lparr>bb_book_id = 2, bb_title = ''Emma'', bb_author = ''Jane Austen'',
       bb_borrow_date = \<lparr>date = 739002, time_of_day = 0\<rparr>,
       bb_due_date = \<lparr>date = 739016, time_of_day = 0\<rparr>\<rparr>]
   \<and> (1 :: int) \<noteq> 9999
   \<and> return_book_by_patron two_loans day0 True True ''123456'' 9999 =
       (two_loans, False, ''Book not found.'')"
  by code_simp

text \<open>
  Claim C5, amended. For a valid patron id, a book of the catalog and a non-empty list of
  active rows, \<open>return_book_by_patron\<close> looks at the first row only. When its book is not the
  requested one the answer is "not currently being borrowed" and the store is unchanged,
  whatever the later rows are. When it is the requested one the two writes follow: the
  patron's unreturned records of that book get the return date \<open>now\<close> and the book gains
  one available copy, each write as far as the store accepts it.
\<close>

theorem return_inspects_first_record:
  assumes "\<not> invalid_patron_id p" and "get_book_by_id s bid = Some bk"
    and "get_patron_borrowed_books s p = r # rest"
  shows "(bb_book_id r \<noteq> bid \<longrightarrow>
            return_book_by_patron s now rec_ok upd_ok p bid =
              (s, False, ''This book is not currently being borrowed by you.''))
     \<and> (bb_book_id r = bid \<longrightarrow>
            return_book_by_patron s now rec_ok upd_ok p bid =
              (let s1 = s\<lparr>borrow_records :=
                          map (\<lambda>x. if patron_id x = p \<and> return_date x = None \<and> book_id x = bid
                                    then x\<lparr>return_date := Some now\<rparr> else x)
                            (borrow_records s)\<rparr>;
                   s2 = s1\<lparr>books :=
                          map (\<lambda>b. if id_book b = bid
                                    then b\<lparr>available_copies := available_copies b + 1\<rparr> else b)
                            (books s)\<rparr>
               in if \<not> rec_ok then (s, False, ''Error while updating return record.'')
                  else if \<not> upd_ok then (s1, False, ''Error while updating book availability.'')
                  else (s2, True, ''Successfully returned book.'')))"
  using assms
  by (simp add: return_book_by_patron_def return_writes_def update_book_availability_def
      update_borrow_record_return_date_def active_of_def Let_def)

theorem return_inspects_first_record_witness:
  "\<not> invalid_patron_id ''123456''
   \<and> get_patron_borrowed_books two_loans ''123456'' =
       \<lparr>bb_book_id = 1, bb_title = ''Dune'', bb_author = ''Frank Herbert'',
         bb_borrow_date = \<lparr>date = 739000, time_of_day = 0\<rparr>,
         bb_due_date = \<lparr>date = 739014, time_of_day = 0\<rparr>\<rparr> #
       [\<lparr>bb_book_id = 2, bb_title = ''Emma'', bb_author = ''Jane Austen'',
         bb_borrow_date = \<lparr>date = 739002, time_of_day = 0\<rparr>,
         bb_due_date = \<lparr>date = 739016, time_of_day = 0\<rparr>\<rparr>]
   \<and> return_book_by_patron two_loans day0 True True ''123456'' 2 =
       (two_loans, False, ''This book is not currently being borrowed by you.'')
   \<and> return_book_by_patron two_loans day0 True True ''123456'' 1 =
       (\<lparr>books =
           [\<lparr>id_book = 1, title = ''Dune'', author = ''Frank Herbert'',
             isbn = ''9780441013593'', total_copies = 6, available_copies = 6\<rparr>,
            \<lparr>id_book = 2, title = ''Emma'', author = ''Jane Austen'',
             isbn = ''9780141439587'', total_copies = 1, available_copies = 0\<rparr>],
         borrow_records =
           [\<lparr>patron_id = ''123456'', book_id = 1,
             borrow_date = \<lparr>date = 739000, time_of_day = 0\<rparr>,
             due_date = \<lparr>date = 739014, time_of_day = 0\<rparr>, return_date = Some day0\<rparr>,
            \<lparr>patron_id = ''123456'', book_id = 2,
             borrow_date = \<lparr>date = 739002, time_of_day = 0\<rparr>,
             due_date = \<lparr>date = 739016, time_of_day = 0\<rparr>, return_date = None\<rparr>]\<rparr>,
        True, ''Successfully returned book.'')"
  using return_inspects_first_record [OF valid_123456 two_loans_second two_loans_rows,
      of day0 True True]
    return_inspects_first_record [OF valid_123456 two_loans_first two_loans_rows,
      of day0 True True]
    valid_123456 two_loans_rows
  by (simp add: two_loans_eq)

section \<open>Borrowing\<close>

text \<open>
  Claim C2. The claim says that a borrow is rejected once the patron holds 5 active
  records. The code compares \<open>current_borrowed > 5\<close>: with exactly 5 active records the
  borrow is accepted, and the patron then holds 6, although the rejection message of the
  same function speaks of a maximum of 5 books.
\<close>

theorem sixth_loan_accepted:
  "get_patron_borrow_count five_loans ''777777'' = 5
   \<and> isl (borrow_book_by_patron five_loans day0 True True ''777777'' 1) = False
   \<and> fst (snd (projr (borrow_book_by_patron five_loans day0 True True ''777777'' 1))) = True
   \<and> get_patron_borrow_count
        (fst (projr (borrow_book_by_patron five_loans day0 True True ''777777'' 1)))
        ''777777'' = 6"
  by code_simp

lemma get_book_by_id_avail:
  "get_book_by_id
     (s\<lparr>books := map (\<lambda>b. if id_book b = bid
                           then b\<lparr>available_copies := available_copies b + d\<rparr> else b)
                     (books s)\<rparr>) i =
   (if i = bid
    then map_option (\<lambda>b. b\<lparr>available_copies := available_copies b + d\<rparr>) (get_book_by_id s bid)
    else get_book_by_id s i)"
proof -
  have "\<And>b. find (\<lambda>b. id_book b = i) (books s) = Some b \<Longrightarrow> id_book b = i"
    by (auto simp: find_Some_iff)
  then show ?thesis
    by (cases "find (\<lambda>b. id_book b = i) (books s)")
      (auto simp: get_book_by_id_def find_map_avail)
qed

lemma borrow_success:
  assumes "borrow_book_by_patron s now ins_ok upd_ok p bid = Inr (s', True, m)"
  shows "\<exists>bk. get_book_by_id s bid = Some bk \<and> 0 < available_copies bk
      \<and> s' = s\<lparr>borrow_records := borrow_records s @
                   [\<lparr>patron_id = p, book_id = bid, borrow_date = now,
                     due_date = add_days now 14, return_date = None\<rparr>],
                books := map (\<lambda>b. if id_book b = bid
                           then b\<lparr>available_copies := available_copies b + (- 1)\<rparr> else b)
                     (books s)\<rparr>"
  using assms
  by (auto simp: borrow_book_by_patron_def insert_borrow_record_def
      update_book_availability_def Let_def split: if_splits option.splits)

lemma return_success:
  assumes "return_book_by_patron s now rec_ok upd_ok p bid = (s', True, m)"
  shows "\<exists>bk. get_book_by_id s bid = Some bk
      \<and> s' = s\<lparr>borrow_records :=
                   map (\<lambda>r. if active_of p r \<and> book_id r = bid
                             then r\<lparr>return_date := Some now\<rparr> else r) (borrow_records s),
                books := map (\<lambda>b. if id_book b = bid
                           then b\<lparr>available_copies := available_copies b + 1\<rparr> else b)
                     (books s)\<rparr>"
  using assms
  by (auto simp: return_book_by_patron_def return_writes_def update_borrow_record_return_date_def
      update_book_availability_def Let_def split: if_splits option.splits scan.splits)

text \<open>
  Claim C7. A borrow of a book that has no available copy fails and leaves the store as it
  was. A successful borrow subtracts one from the available copies of the book with the
  requested id and a successful return adds one; the other fields of that book and every
  other book stay as they were.
\<close>

theorem borrow_and_return_change_one_book:
  "(get_book_by_id s bid = Some bk \<and> available_copies bk = 0 \<longrightarrow>
      (\<exists>m. borrow_book_by_patron s now ins_ok upd_ok p bid = Inr (s, False, m)))
   \<and> (borrow_book_by_patron s now ins_ok upd_ok p bid = Inr (s1, True, m1) \<longrightarrow>
        books s1 =
          map (\<lambda>b. if id_book b = bid
                    then b\<lparr>available_copies := available_copies b - 1\<rparr> else b) (books s)
        \<and> (\<exists>b. get_book_by_id s bid = Some b
              \<and> get_book_by_id s1 bid = Some (b\<lparr>available_copies := available_copies b - 1\<rparr>))
        \<and> (\<forall>i. i \<noteq> bid \<longrightarrow> get_book_by_id s1 i = get_book_by_id s i))
   \<and> (return_book_by_patron s now rec_ok upd_ok p bid = (s2, True, m2) \<longrightarrow>
        books s2 =
          map (\<lambda>b. if id_book b = bid
                    then b\<lparr>available_copies := available_copies b + 1\<rparr> else b) (books s)
        \<and> (\<exists>b. get_book_by_id s bid = Some b
              \<and> get_book_by_id s2 bid = Some (b\<lparr>available_copies := available_copies b + 1\<rparr>))
        \<and> (\<forall>i. i \<noteq> bid \<longrightarrow> get_book_by_id s2 i = get_book_by_id s i))"
proof (intro conjI impI)
  assume "get_book_by_id s bid = Some bk \<and> available_copies bk = 0"
  then show "\<exists>m. borrow_book_by_patron s now ins_ok upd_ok p bid = Inr (s, False, m)"
    by (simp add: borrow_book_by_patron_def)
next
  assume a: "borrow_book_by_patron s now ins_ok upd_ok p bid = Inr (s1, True, m1)"
  from borrow_success [OF a] obtain b where b: "get_book_by_id s bid = Some b"
    and s1: "s1 = s\<lparr>borrow_records := borrow_records s @
                   [\<lparr>patron_id = p, book_id = bid, borrow_date = now,
                     due_date = add_days now 14, return_date = None\<rparr>],
                books := map (\<lambda>b. if id_book b = bid
                           then b\<lparr>available_copies := available_copies b + (- 1)\<rparr> else b)
                     (books s)\<rparr>"
    by blast
  have g: "\<And>i. get_book_by_id s1 i =
      (if i = bid
       then map_option (\<lambda>b. b\<lparr>available_copies := available_copies b + (- 1)\<rparr>)
              (get_book_by_id s bid)
       else get_book_by_id s i)"
    using get_book_by_id_avail [where s = s and bid = bid and d = "- 1"]
    by (simp add: s1 get_book_by_id_def)
  show "books s1 =
          map (\<lambda>b. if id_book b = bid
                    then b\<lparr>available_copies := available_copies b - 1\<rparr> else b) (books s)"
    by (simp add: s1)
  show "\<exists>b. get_book_by_id s bid = Some b
          \<and> get_book_by_id s1 bid = Some (b\<lparr>available_copies := available_copies b - 1\<rparr>)"
    using b g [of bid] by simp
  show "\<forall>i. i \<noteq> bid \<longrightarrow> get_book_by_id s1 i = get_book_by_id s i"
    using g by simp
next
  assume a: "return_book_by_patron s now rec_ok upd_ok p bid = (s2, True, m2)"
  from return_success [OF a] obtain b where b: "get_book_by_id s bid = Some b"
    and s2: "s2 = s\<lparr>borrow_records :=
                   map (\<lambda>r. if active_of p r \<and> book_id r = bid
                             then r\<lparr>return_date := Some now\<rparr> else r) (borrow_records s),
                books := map (\<lambda>b. if id_book b = bid
                           then b\<lparr>available_copies := available_copies b + 1\<rparr> else b)
                     (books s)\<rparr>"
    by blast
  have g: "\<And>i. get_book_by_id s2 i =
      (if i = bid
       then map_option (\<lambda>b. b\<lparr>available_copies := available_copies b + 1\<rparr>)
              (get_book_by_id s bid)
       else get_book_by_id s i)"
    using get_book_by_id_avail [where s = s and bid = bid and d = 1]
    by (simp add: s2 get_book_by_id_def)
  show "books s2 =
          map (\<lambda>b. if id_book b = bid
                    then b\<lparr>available_copies := available_copies b + 1\<rparr> else b) (books s)"
    by (simp add: s2)
  show "\<exists>b. get_book_by_id s bid = Some b
          \<and> get_book_by_id s2 bid = Some (b\<lparr>available_copies := available_copies b + 1\<rparr>)"
    using b g [of bid] by simp
  show "\<forall>i. i \<noteq> bid \<longrightarrow> get_book_by_id s2 i = get_book_by_id s i"
    using g by simp
qed

theorem borrow_and_return_change_one_book_witness:
  "get_book_by_id two_loans 2 =
     Some \<lparr>id_book = 2, title = ''Emma'', author = ''Jane Austen'', isbn = ''9780141439587'',
           total_copies = 1, available_copies = 0\<rparr>
   \<and> (\<exists>m. borrow_book_by_patron two_loans day0 True True ''654321'' 2 =
            Inr (two_loans, False, m))
   \<and> isl (borrow_book_by_patron two_books day0 True True ''123456'' 1) = False
   \<and> fst (snd (projr (borrow_book_by_patron two_books day0 True True ''123456'' 1))) = True
   \<and> get_book_by_id
        (fst (projr (borrow_book_by_patron two_books day0 True True ''123456'' 1))) 1 =
       Some \<lparr>id_book = 1, title = ''Dune'', author = ''Frank Herbert'',
             isbn = ''9780441013593'', total_copies = 6, available_copies = 5\<rparr>
   \<and> get_book_by_id
        (fst (projr (borrow_book_by_patron two_books day0 True True ''123456'' 1))) 2 =
       get_book_by_id two_books 2
   \<and> fst (snd (return_book_by_patron two_loans day0 True True ''123456'' 1)) = True
   \<and> get_book_by_id (fst (return_book_by_patron two_loans day0 True True ''123456'' 1)) 1 =
       Some \<lparr>id_book = 1, title = ''Dune'', author = ''Frank Herbert'',
             isbn = ''9780441013593'', total_copies = 6, available_copies = 6\<rparr>
   \<and> get_book_by_id (fst (return_book_by_patron two_loans day0 True True ''123456'' 1)) 2 =
       get_book_by_id two_loans 2"
proof -
  let ?b = "borrow_book_by_patron two_books day0 True True ''123456'' 1"
  let ?r = "return_book_by_patron two_loans day0 True True ''123456'' 1"
  have isb: "isl ?b = False" by code_simp
  have okb: "fst (snd (projr ?b)) = True" by code_simp
  have okr: "fst (snd ?r) = True" by code_simp
  have eb: "?b = Inr (fst (projr ?b), True, snd (snd (projr ?b)))"
    using isb okb by (cases ?b) (simp_all add: prod_eq_iff)
  have er: "?r = (fst ?r, True, snd (snd ?r))"
    by (simp add: prod_eq_iff okr)
  note t1 = borrow_and_return_change_one_book
    [where s = two_loans and bid = 2 and now = day0 and ins_ok = True and upd_ok = True
       and p = "''654321''"
       and bk = "\<lparr>id_book = 2, title = ''Emma'', author = ''Jane Austen'',
                  isbn = ''9780141439587'', total_copies = 1, available_copies = 0\<rparr>"]
  note t2 = borrow_and_return_change_one_book
    [where s = two_books and bid = 1 and now = day0 and ins_ok = True and upd_ok = True
       and p = "''123456''" and ?s1.0 = "fst (projr ?b)"
       and ?m1.0 = "snd (snd (projr ?b))"]
  note t3 = borrow_and_return_change_one_book
    [where s = two_loans and bid = 1 and now = day0 and rec_ok = True and upd_ok = True
       and p = "''123456''" and ?s2.0 = "fst ?r" and ?m2.0 = "snd (snd ?r)"]
  have c1: "\<exists>m. borrow_book_by_patron two_loans day0 True True ''654321'' 2 =
            Inr (two_loans, False, m)"
    using t1 [THEN conjunct1, rule_format] two_loans_second by simp
  note b2 = t2 [THEN conjunct2, THEN conjunct1, rule_format, OF eb]
  note r3 = t3 [THEN conjunct2, THEN conjunct2, rule_format, OF er]
  have c2: "get_book_by_id (fst (projr ?b)) 1 =
       Some \<lparr>id_book = 1, title = ''Dune'', author = ''Frank Herbert'',
             isbn = ''9780441013593'', total_copies = 6, available_copies = 5\<rparr>"
    "get_book_by_id (fst (projr ?b)) 2 = get_book_by_id two_books 2"
    using b2 two_books_first by simp_all
  have c3: "get_book_by_id (fst ?r) 1 =
       Some \<lparr>id_book = 1, title = ''Dune'', author = ''Frank Herbert'',
             isbn = ''9780441013593'', total_copies = 6, available_copies = 6\<rparr>"
    "get_book_by_id (fst ?r) 2 = get_book_by_id two_loans 2"
    using r3 two_loans_first by simp_all
  show ?thesis using two_loans_second c1 isb okb c2 okr c3 by simp
qed

section \<open>Adding a book\<close>

lemma find_append_new:
  "find P xs = None \<Longrightarrow> P x \<Longrightarrow> find P (xs @ [x]) = Some x"
  by (induction xs) (auto split: if_splits)

lemma add_success:
  assumes "add_book_to_catalog s ins_ok ttl auth isbn_v n = (s1, True, m)"
  shows "get_book_by_isbn s isbn_v = None \<and> length isbn_v = 13
     \<and> s1 = s\<lparr>books := books s @
                 [\<lparr>id_book = next_id s, title = strip ttl, author = strip auth, isbn = isbn_v,
                   total_copies = n, available_copies = n\<rparr>]\<rparr>"
  using assms
  by (auto simp: add_book_to_catalog_def insert_book_def split: if_splits option.splits)

text \<open>
  Claim C8. \<open>add_book_to_catalog\<close> answers \<open>False\<close> and leaves the catalog unchanged when the
  title is blank after trimming, when the trimmed title has more than 200 characters, when
  the isbn does not have exactly 13 characters, and when a book with that isbn is already
  in the catalog; a second insertion of an isbn that was just added is such a case. When
  the other arguments pass their checks the message of the duplicate case is
  "A book with this ISBN already exists.".
\<close>

theorem add_book_rejections:
  "(strip ttl = [] \<or> length (strip ttl) > 200 \<or> length isbn_v \<noteq> 13
      \<or> get_book_by_isbn s isbn_v \<noteq> None \<longrightarrow>
      fst (snd (add_book_to_catalog s ins_ok ttl auth isbn_v n)) = False
      \<and> fst (add_book_to_catalog s ins_ok ttl auth isbn_v n) = s)
   \<and> (get_book_by_isbn s isbn_v \<noteq> None
        \<and> strip ttl \<noteq> [] \<and> length (strip ttl) \<le> 200
        \<and> strip auth \<noteq> [] \<and> length (strip auth) \<le> 100
        \<and> length isbn_v = 13 \<and> 0 < n \<longrightarrow>
        snd (snd (add_book_to_catalog s ins_ok ttl auth isbn_v n)) =
          ''A book with this ISBN already exists.'')
   \<and> (add_book_to_catalog s ins_ok ttl auth isbn_v n = (s1, True, m) \<longrightarrow>
        fst (snd (add_book_to_catalog s1 ins_ok2 ttl2 auth2 isbn_v n2)) = False
        \<and> fst (add_book_to_catalog s1 ins_ok2 ttl2 auth2 isbn_v n2) = s1
        \<and> (strip ttl2 \<noteq> [] \<and> length (strip ttl2) \<le> 200
             \<and> strip auth2 \<noteq> [] \<and> length (strip auth2) \<le> 100 \<and> 0 < n2 \<longrightarrow>
             snd (snd (add_book_to_catalog s1 ins_ok2 ttl2 auth2 isbn_v n2)) =
               ''A book with this ISBN already exists.''))"
proof (intro conjI impI)
  assume "strip ttl = [] \<or> length (strip ttl) > 200 \<or> length isbn_v \<noteq> 13
      \<or> get_book_by_isbn s isbn_v \<noteq> None"
  then show "fst (snd (add_book_to_catalog s ins_ok ttl auth isbn_v n)) = False"
    and "fst (add_book_to_catalog s ins_ok ttl auth isbn_v n) = s"
    by (auto simp: add_book_to_catalog_def)
next
  assume "get_book_by_isbn s isbn_v \<noteq> None
        \<and> strip ttl \<noteq> [] \<and> length (strip ttl) \<le> 200
        \<and> strip auth \<noteq> [] \<and> length (strip auth) \<le> 100
        \<and> length isbn_v = 13 \<and> 0 < n"
  then show "snd (snd (add_book_to_catalog s ins_ok ttl auth isbn_v n)) =
          ''A book with this ISBN already exists.''"
    by (auto simp: add_book_to_catalog_def strip_def)
next
  assume a: "add_book_to_catalog s ins_ok ttl auth isbn_v n = (s1, True, m)"
  from add_success [OF a] have f: "get_book_by_isbn s1 isbn_v \<noteq> None" and l: "length isbn_v = 13"
    by (auto simp: get_book_by_isbn_def find_append_new)
  from f show "fst (snd (add_book_to_catalog s1 ins_ok2 ttl2 auth2 isbn_v n2)) = False"
    and "fst (add_book_to_catalog s1 ins_ok2 ttl2 auth2 isbn_v n2) = s1"
    by (auto simp: add_book_to_catalog_def)
  assume "strip ttl2 \<noteq> [] \<and> length (strip ttl2) \<le> 200
             \<and> strip auth2 \<noteq> [] \<and> length (strip auth2) \<le> 100 \<and> 0 < n2"
  with f l show "snd (snd (add_book_to_catalog s1 ins_ok2 ttl2 auth2 isbn_v n2)) =
               ''A book with this ISBN already exists.''"
    by (auto simp: add_book_to_catalog_def strip_def)
qed

theorem add_book_rejections_witness:
  "strip ''   '' = []
   \<and> fst (snd (add_book_to_catalog two_books True ''   '' ''Author'' ''1234567890123'' 1)) = False
   \<and> fst (add_book_to_catalog two_books True ''   '' ''Author'' ''1234567890123'' 1) = two_books
   \<and> length (strip (replicate 201 CHR ''A'')) > 200
   \<and> fst (snd (add_book_to_catalog two_books True (replicate 201 CHR ''A'') ''Author''
         ''1234567890123'' 1)) = False
   \<and> fst (add_book_to_catalog two_books True (replicate 201 CHR ''A'') ''Author''
         ''1234567890123'' 1) = two_books
   \<and> length ''123456789'' \<noteq> 13
   \<and> fst (snd (add_book_to_catalog two_books True ''Test Book'' ''Test Author''
         ''123456789'' 5)) = False
   \<and> fst (add_book_to_catalog two_books True ''Test Book'' ''Test Author''
         ''123456789'' 5) = two_books
   \<and> fst (snd (add_book_to_catalog empty_db True ''1984'' ''George Orwell''
         ''9876543210123'' 4)) = True
   \<and> fst (snd (add_book_to_catalog
        (fst (add_book_to_catalog empty_db True ''1984'' ''George Orwell'' ''9876543210123'' 4))
        True ''Animal Farm'' ''George Orwell'' ''9876543210123'' 2)) = False
   \<and> fst (add_book_to_catalog
        (fst (add_book_to_catalog empty_db True ''1984'' ''George Orwell'' ''9876543210123'' 4))
        True ''Animal Farm'' ''George Orwell'' ''9876543210123'' 2) =
       fst (add_book_to_catalog empty_db True ''1984'' ''George Orwell'' ''9876543210123'' 4)
   \<and> snd (snd (add_book_to_catalog
        (fst (add_book_to_catalog empty_db True ''1984'' ''George Orwell'' ''9876543210123'' 4))
        True ''Animal Farm'' ''George Orwell'' ''9876543210123'' 2)) =
       ''A book with this ISBN already exists.''"
proof -
  let ?a = "add_book_to_catalog empty_db True ''1984'' ''George Orwell'' ''9876543210123'' 4"
  let ?long = "replicate 201 CHR ''A''"
  have h1: "strip ''   '' = []" by code_simp
  have h2: "length (strip ?long) > 200" by code_simp
  have h3: "length ''123456789'' \<noteq> 13" by simp
  have oka: "fst (snd ?a) = True" by code_simp
  have ea: "?a = (fst ?a, True, snd (snd ?a))" by (simp add: prod_eq_iff oka)
  have v: "strip ''Animal Farm'' \<noteq> [] \<and> length (strip ''Animal Farm'') \<le> 200
     \<and> strip ''George Orwell'' \<noteq> [] \<and> length (strip ''George Orwell'') \<le> 100 \<and> (0::int) < 2"
    by code_simp
  note r1 = add_book_rejections
    [where s = two_books and ins_ok = True and ttl = "''   ''" and auth = "''Author''"
       and isbn_v = "''1234567890123''" and n = 1,
     THEN conjunct1, rule_format, OF disjI1, OF h1]
  note r2 = add_book_rejections
    [where s = two_books and ins_ok = True and ttl = ?long and auth = "''Author''"
       and isbn_v = "''1234567890123''" and n = 1,
     THEN conjunct1, rule_format, OF disjI2, OF disjI1, OF h2]
  note r3 = add_book_rejections
    [where s = two_books and ins_ok = True and ttl = "''Test Book''" and auth = "''Test Author''"
       and isbn_v = "''123456789''" and n = 5,
     THEN conjunct1, rule_format, OF disjI2, OF disjI2, OF disjI1, OF h3]
  note r4 = add_book_rejections
    [where s = empty_db and ins_ok = True and ttl = "''1984''" and auth = "''George Orwell''"
       and isbn_v = "''9876543210123''" and n = 4 and ?s1.0 = "fst ?a" and m = "snd (snd ?a)"
       and ?ins_ok2.0 = True and ?ttl2.0 = "''Animal Farm''"
       and ?auth2.0 = "''George Orwell''" and ?n2.0 = 2,
     THEN conjunct2, THEN conjunct2, rule_format, OF ea]
  note r5 = r4 [THEN conjunct2, THEN conjunct2, rule_format, OF v]
  show ?thesis
    by (intro conjI h1 r1 [THEN conjunct1] r1 [THEN conjunct2] h2 r2 [THEN conjunct1]
        r2 [THEN conjunct2] h3 r3 [THEN conjunct1] r3 [THEN conjunct2] oka
        r4 [THEN conjunct1] r4 [THEN conjunct2, THEN conjunct1] r5)
qed

section \<open>Searching by isbn\<close>

text \<open>
  Claim C9, as stated, fails: the isbn values of a catalog can be pairwise different and
  still agree once lowercased, because \<open>add_book_to_catalog\<close> checks the length of an isbn
  only. Both books of \<open>case_variants\<close> were accepted by \<open>add_book_to_catalog\<close>, their isbn
  values differ, and the search for one of them returns both.
\<close>

theorem isbn_search_case_variants:
  "distinct (map isbn (books case_variants))
   \<and> length (search_books_in_catalog case_variants ''abcdefghijklm'' ''isbn'') = 2"
  by code_simp

lemma search_loop_isbn:
  "search_loop ''isbn'' trm bs acc = acc @ filter (\<lambda>b. lower (isbn b) = trm) bs"
  by (induction bs arbitrary: acc) simp_all

lemma filter_key_at_most_one:
  "distinct (map f bs) \<Longrightarrow> length (filter (\<lambda>b. f b = t) bs) \<le> 1"
proof (induction bs)
  case Nil
  then show ?case by simp
next
  case (Cons b bs)
  show ?case
  proof (cases "f b = t")
    case True
    have "f b \<notin> f ` set bs" using Cons.prems by simp
    then have "\<forall>x \<in> set bs. f x \<noteq> t" using True by blast
    then have "filter (\<lambda>b. f b = t) bs = []"
      by (simp add: filter_empty_conv)
    then show ?thesis using True by simp
  next
    case False
    then show ?thesis using Cons by simp
  qed
qed

lemma search_isbn_eq:
  assumes "lower search_type = ''isbn''" and "search_term \<noteq> []"
  shows "search_books_in_catalog s search_term search_type =
     filter (\<lambda>b. lower (isbn b) = lower (strip search_term)) (books s)"
proof -
  have "search_type \<noteq> []" using assms(1) by (auto simp: lower_def)
  then show ?thesis using assms
    by (simp add: search_books_in_catalog_def get_all_books_def search_loop_isbn Let_def)
qed

text \<open>
  Claim C9, amended. In a catalog whose isbn values are pairwise different after
  lowercasing (as they are when they are different digit strings), a search whose type is
  \<open>isbn\<close> in any letter case returns at most one book, and every book returned is a book of
  the catalog whose lowercased isbn equals the trimmed, lowercased term.
\<close>

theorem isbn_search_at_most_one:
  assumes "distinct (map (\<lambda>b. lower (isbn b)) (books s))" and "lower search_type = ''isbn''"
  shows "length (search_books_in_catalog s search_term search_type) \<le> 1
     \<and> (\<forall>b \<in> set (search_books_in_catalog s search_term search_type).
           b \<in> set (books s) \<and> lower (isbn b) = lower (strip search_term))"
proof (cases "search_term = []")
  case True
  then show ?thesis by (simp add: search_books_in_catalog_def)
next
  case False
  show ?thesis
    using filter_key_at_most_one [OF assms(1), of "lower (strip search_term)"]
    by (simp add: search_isbn_eq [OF assms(2) False])
qed

theorem isbn_search_at_most_one_witness:
  "distinct (map (\<lambda>b. lower (isbn b)) (books two_books))
   \<and> lower ''ISBN'' = ''isbn''
   \<and> search_books_in_catalog two_books ''  9780441013593 '' ''ISBN'' =
       [\<lparr>id_book = 1, title = ''Dune'', author = ''Frank Herbert'', isbn = ''9780441013593'',
         total_copies = 6, available_copies = 6\<rparr>]
   \<and> length (search_books_in_catalog two_books ''  9780441013593 '' ''ISBN'') \<le> 1
   \<and> \<lparr>id_book = 1, title = ''Dune'', author = ''Frank Herbert'', isbn = ''9780441013593'',
        total_copies = 6, available_copies = 6\<rparr> \<in> set (books two_books)
   \<and> lower (isbn \<lparr>id_book = 1, title = ''Dune'', author = ''Frank Herbert'',
                   isbn = ''9780441013593'', total_copies = 6, available_copies = 6\<rparr>) =
       lower (strip ''  9780441013593 '')"
proof -
  let ?dune = "\<lparr>id_book = 1, title = ''Dune'', author = ''Frank Herbert'',
                isbn = ''9780441013593'', total_copies = 6, available_copies = 6\<rparr>"
  have h1: "distinct (map (\<lambda>b. lower (isbn b)) (books two_books))" by code_simp
  have h2: "lower ''ISBN'' = ''isbn''" by code_simp
  have e: "search_books_in_catalog two_books ''  9780441013593 '' ''ISBN'' = [?dune]"
    by code_simp
  have mem: "?dune \<in> set (search_books_in_catalog two_books ''  9780441013593 '' ''ISBN'')"
    by (simp only: e list.set_intros)
  note t = isbn_search_at_most_one [OF h1 h2, of "''  9780441013593 ''"]
  note u = t [THEN conjunct2, THEN bspec, OF mem]
  show ?thesis
    by (intro conjI h1 h2 e t [THEN conjunct1] u [THEN conjunct1] u [THEN conjunct2])
qed

section \<open>The patron status report\<close>

text \<open>
  Claim C6. The claim says that, for a patron with two or more active overdue loans, every
  entry of the report carries the overdue fee of its own loan. The code obtains each entry
  from \<open>calculate_late_fee_for_book\<close>, whose scan stops at the patron's first active row:
  for the patron of \<open>two_loans\<close>, ten and eight days after the two due dates, the entry of
  the second loan has 0 days overdue, fee 0 and status "Not being borrowed", and the total
  is the fee of the first loan alone.
\<close>

theorem report_of_two_overdue_loans:
  "(case get_patron_status_report two_loans (add_days day0 24) ''123456'' of
      Inl e \<Rightarrow> False
    | Inr r \<Rightarrow>
        map (\<lambda>d. (d_book_id d, date (add_days day0 24) - date (d_due_date d),
                   d_days_overdue d, d_late_fee d, d_status d)) (borrowed_books r) =
          [(1, 10, 10, 13 / 2, ''Overdue''), (2, 8, 0, 0, ''Not being borrowed'')]
        \<and> total_late_fee r = 13 / 2)"
  by code_simp

section \<open>Bounds on the available copies\<close>
















lemma active_loans_books [simp]: "active_loans (s\<lparr>books := bs\<rparr>) i = active_loans s i"
  by (simp add: active_loans_def)

lemma active_loans_append:
  "active_loans (s\<lparr>borrow_records := borrow_records s @ [r]\<rparr>) i =
   active_loans s i + (if book_id r = i \<and> return_date r = None then 1 else 0)"
  by (simp add: active_loans_def)
















end
